theory Spec2Isabelle
  imports Main
begin

section \<open>The request orchestrator of \<open>backend/gradio-app.py\<close>\<close>

text \<open>
  The repository's logic is the UI callback \<open>process_inputs\<close>: it prints a debug line,
  leaves early when no audio was recorded, and otherwise calls transcription, image
  encoding and vision analysis (only for a truthy image path) and speech synthesis, in
  that order. The callback is embedded with explicit state passing. The state holds what
  the callback can read or change: the process environment, the files on disk, the lines
  printed to standard output, and a log of the collaborator calls made so far. The log is
  what statements such as "is never invoked" or "is called exactly once" are about.
  An exception raised by a collaborator is a value \<open>Inl\<close> of the result; the state reached
  when it was raised is returned with it, since Python undoes nothing on the way out.
\<close>

subsection \<open>Data\<close>

text \<open>An exception raised inside a collaborator, with its message.\<close>

datatype fault = Fault string

text \<open>
  One entry of the call log, holding the arguments as the callback passes them:
  \<^item> \<open>Transcribe GROQ_API_KEY audio_filepath stt_model\<close>,
  \<^item> \<open>EncodeImage image_path\<close>,
  \<^item> \<open>AnalyzeImage query encoded_image model\<close>,
  \<^item> \<open>TextToSpeech input_text output_filepath\<close>.
\<close>

datatype call =
    is_Transcribe: Transcribe "string option" string string
  | is_EncodeImage: EncodeImage string
  | is_AnalyzeImage: AnalyzeImage string string string
  | is_TextToSpeech: TextToSpeech string string

record world =
  environ :: "string \<rightharpoonup> string"
  files :: "string \<rightharpoonup> string"
  stdout :: "string list"
  calls :: "call list"

text \<open>
  What the outside world answers. The modules \<open>voice_of_the_patient\<close>,
  \<open>brain_of_the_doctor\<close> and \<open>voice_of_the_doctor\<close> are imported by the callback but
  their bodies are not part of the source at hand, and behind them are remote services.
  Their answers are therefore parameters: any function from the arguments of a call to
  either a fault or a value. Every theorem below holds for all of them.
  \<^item> \<open>transcription key path model\<close>: the transcript text;
  \<^item> \<open>encoding path\<close>: the encoded image text;
  \<^item> \<open>analysis query encoded_image model\<close>: the free-text response;
  \<^item> \<open>synthesis text\<close>: the bytes of the synthesized audio.
\<close>

record services =
  transcription :: "string option \<Rightarrow> string \<Rightarrow> string \<Rightarrow> fault + string"
  encoding :: "string \<Rightarrow> fault + string"
  analysis :: "string \<Rightarrow> string \<Rightarrow> string \<Rightarrow> fault + string"
  synthesis :: "string \<Rightarrow> fault + string"

type_synonym 'a io = "world \<Rightarrow> (fault + 'a) \<times> world"

subsection \<open>Python built-ins used by the callback\<close>

text \<open>\<open>str(x)\<close> as an f-string formats an optional path: \<open>None\<close> prints as \<open>None\<close>.\<close>

fun py_str :: "string option \<Rightarrow> string" where
  "py_str None = ''None''"
| "py_str (Some s) = s"

text \<open>Truth value of an optional string in \<open>if x:\<close>: \<open>None\<close> and the empty string are false.\<close>

fun py_bool :: "string option \<Rightarrow> bool" where
  "py_bool None = False"
| "py_bool (Some s) = (s \<noteq> [])"

text \<open>\<open>print(line)\<close> appends one line to standard output.\<close>

definition print :: "string \<Rightarrow> world \<Rightarrow> world" where
  "print line w = w\<lparr>stdout := stdout w @ [line]\<rparr>"

definition log_call :: "call \<Rightarrow> world \<Rightarrow> world" where
  "log_call c w = w\<lparr>calls := calls w @ [c]\<rparr>"

subsection \<open>The collaborators\<close>

text \<open>
  Modelled from the spec: \<open>voice_of_the_patient.transcribe_with_groq\<close> is not in the
  source at hand. The spec gives its call shape, (credential, audio file path, model
  name) to transcript text, failing on invalid audio format or credential, and no
  persistent effect. The call is logged, the answer is the service's.
\<close>

definition transcribe_with_groq ::
  "services \<Rightarrow> string option \<Rightarrow> string \<Rightarrow> string \<Rightarrow> string io" where
  "transcribe_with_groq svc GROQ_API_KEY audio_filepath stt_model w =
     (transcription svc GROQ_API_KEY audio_filepath stt_model,
      log_call (Transcribe GROQ_API_KEY audio_filepath stt_model) w)"

text \<open>
  Modelled from the spec: \<open>brain_of_the_doctor.encode_image\<close> is not in the source at
  hand. The spec describes it as encoding the image to a transport-safe (base64) text
  derived from the image bytes, computed per request, with no persistent effect.
\<close>

definition encode_image :: "services \<Rightarrow> string \<Rightarrow> string io" where
  "encode_image svc image_path w = (encoding svc image_path, log_call (EncodeImage image_path) w)"

text \<open>
  Modelled from the spec: \<open>brain_of_the_doctor.analyze_image_with_query\<close> is not in the
  source at hand. The spec gives its call shape, (prompt text, encoded image, model name)
  to free-text response, failing on oversized image, invalid encoding or service error.
\<close>

definition analyze_image_with_query ::
  "services \<Rightarrow> string \<Rightarrow> string \<Rightarrow> string \<Rightarrow> string io" where
  "analyze_image_with_query svc query encoded_image model w =
     (analysis svc query encoded_image model,
      log_call (AnalyzeImage query encoded_image model) w)"

text \<open>
  Modelled from the spec: \<open>voice_of_the_doctor.text_to_speech_with_elevenlabs\<close> is not in
  the source at hand. The spec gives its call shape, (text, output path): it writes an
  audio file at that path, replacing a file already there, and fails on invalid text or
  service error; the synthesized audio handed back for playback is that filesystem path.
  A failed synthesis writes nothing.
\<close>

definition text_to_speech_with_elevenlabs :: "services \<Rightarrow> string \<Rightarrow> string \<Rightarrow> string io" where
  "text_to_speech_with_elevenlabs svc input_text output_filepath w =
     (case synthesis svc input_text of
        Inl e \<Rightarrow> (Inl e, log_call (TextToSpeech input_text output_filepath) w)
      | Inr audio \<Rightarrow>
          (Inr output_filepath,
           (log_call (TextToSpeech input_text output_filepath) w)
             \<lparr>files := (files w)(output_filepath \<mapsto> audio)\<rparr>))"

subsection \<open>The callback\<close>

text \<open>The module-level literal \<open>system_prompt\<close>, a triple-quoted string of seven lines.\<close>

definition system_prompt :: string where
  "system_prompt =
     ''You have to act as a professional doctor, i know you are not but this is for learning purpose. \<newline>'' @
     ''            What's in this image?. Do you find anything wrong with it medically? \<newline>'' @
     ''            If you make a differential, suggest some remedies for them. Donot add any numbers or special characters in \<newline>'' @
     ''            your response. Your response should be in one long paragraph. Also always answer as if you are answering to a real person.\<newline>'' @
     ''            Donot say 'In the image I see' but say 'With what I see, I think you have ....'\<newline>'' @
     ''            Dont respond as an AI model in markdown, your answer should mimic that of an actual doctor not an AI bot, \<newline>'' @
     ''            Keep your answer concise (max 2 sentences). No preamble, start your answer right away please''"


text \<open>
  Sequencing of two steps: a fault raised by the first step ends the run with the state
  reached so far, as an uncaught Python exception does; the callback has no \<open>try\<close>.
\<close>

definition bind_io :: "'a io \<Rightarrow> ('a \<Rightarrow> 'b io) \<Rightarrow> 'b io" where
  "bind_io m f w = (case m w of (Inl e, w') \<Rightarrow> (Inl e, w') | (Inr x, w') \<Rightarrow> f x w')"

definition return_io :: "'a \<Rightarrow> 'a io" where
  "return_io x w = (Inr x, w)"

text \<open>
  \<open>process_inputs(audio_filepath, image_filepath)\<close>, statement by statement. The audio
  path is compared with \<open>None\<close> (\<open>is None\<close>), the image path is tested for truth
  (\<open>if image_filepath:\<close>); \<open>the\<close> is applied to the image path only under that test,
  where the path is a non-empty string. The credential is \<open>os.environ.get\<close>, which
  gives \<open>None\<close> for an unset variable. The keyword arguments of the analysis call are
  evaluated left to right, so \<open>encode_image\<close> runs before \<open>analyze_image_with_query\<close>.
\<close>

definition process_inputs ::
  "services \<Rightarrow> string option \<Rightarrow> string option \<Rightarrow> (string \<times> string \<times> string option) io" where
  "process_inputs svc audio_filepath image_filepath w0 =
     (let w = print (''Audio filepath received: '' @ py_str audio_filepath) w0 in
      case audio_filepath of
        None \<Rightarrow> (Inr (''No audio recorded'', ''Please record your question first'', None), w)
      | Some audio \<Rightarrow>
          bind_io
            (transcribe_with_groq svc (environ w ''GROQ_API_KEY'') audio ''whisper-large-v3'')
            (\<lambda>speech_to_text_output.
               bind_io
                 (if py_bool image_filepath then
                    bind_io (encode_image svc (the image_filepath))
                      (\<lambda>encoded_image.
                         analyze_image_with_query svc (system_prompt @ speech_to_text_output)
                           encoded_image ''meta-llama/llama-4-scout-17b-16e-instruct'')
                  else return_io ''No image provided for me to analyze'')
                 (\<lambda>doctor_response.
                    bind_io (text_to_speech_with_elevenlabs svc doctor_response ''final.mp3'')
                      (\<lambda>audio_path.
                         return_io (speech_to_text_output, doctor_response, Some audio_path))))
            w)"

subsection \<open>Observations on a run\<close>

text \<open>The collaborator calls made between two states: those logged after the first.\<close>

definition new_calls :: "world \<Rightarrow> world \<Rightarrow> call list" where
  "new_calls w w' = drop (length (calls w)) (calls w')"

text \<open>The response text of a returned triple; a run that raised has none.\<close>

fun response_text :: "fault + string \<times> string \<times> string option \<Rightarrow> string option" where
  "response_text (Inl e) = None"
| "response_text (Inr (transcript, response, audio_path)) = Some response"

text \<open>What the collaborator answered to a logged call.\<close>

fun answer :: "services \<Rightarrow> call \<Rightarrow> fault + string" where
  "answer svc (Transcribe key path model) = transcription svc key path model"
| "answer svc (EncodeImage path) = encoding svc path"
| "answer svc (AnalyzeImage query encoded model) = analysis svc query encoded model"
| "answer svc (TextToSpeech text path) =
     (case synthesis svc text of Inl e \<Rightarrow> Inl e | Inr audio \<Rightarrow> Inr path)"

subsection \<open>Concrete services and states\<close>

text \<open>
  A transcription service that rejects a missing credential and otherwise hears the
  question of the spec's scenario, and services that always answer.
\<close>

definition demo_services :: services where
  "demo_services =
     \<lparr>transcription = (\<lambda>key path model.
         case key of None \<Rightarrow> Inl (Fault ''missing api key'')
                   | Some k \<Rightarrow> Inr ''What is this rash on my arm''),
      encoding = (\<lambda>path. Inr ''aW1hZ2U=''),
      analysis = (\<lambda>query encoded model. Inr ''With what I see, I think you have a mild rash''),
      synthesis = (\<lambda>text. Inr ''ID3'')\<rparr>"

text \<open>The same services on a later day: the synthesized audio differs.\<close>

definition other_services :: services where
  "other_services = demo_services\<lparr>synthesis := (\<lambda>text. Inr ''ID4'')\<rparr>"

text \<open>A state with the credential set and a stale output file, and one with no credential.\<close>

definition demo_world :: world where
  "demo_world =
     \<lparr>environ = [''GROQ_API_KEY'' \<mapsto> ''gsk-demo''],
      files = [''final.mp3'' \<mapsto> ''stale'', ''skin.jpg'' \<mapsto> ''image''],
      stdout = [],
      calls = []\<rparr>"

definition keyless_world :: world where
  "keyless_world = demo_world\<lparr>environ := Map.empty\<rparr>"

section \<open>Properties\<close>

lemmas model_defs =
  process_inputs_def bind_io_def return_io_def transcribe_with_groq_def encode_image_def
  analyze_image_with_query_def text_to_speech_with_elevenlabs_def log_call_def print_def
  new_calls_def Let_def

lemmas demo_defs =
  demo_services_def other_services_def demo_world_def keyless_world_def

text \<open>The literal has the 748 characters of the source's seven lines.\<close>

lemma system_prompt_length: "length system_prompt = 748"
  by (simp add: system_prompt_def)

text \<open>
  A run that returns has called speech synthesis exactly once, on the returned response
  text and the fixed path, has written the synthesized audio there and returns that path.
\<close>

lemma run_success:
  assumes "fst (process_inputs svc (Some audio) image_filepath w) = Inr (t, r, p)"
  shows "p = Some ''final.mp3''
    \<and> filter is_TextToSpeech
         (new_calls w (snd (process_inputs svc (Some audio) image_filepath w))) =
       [TextToSpeech r ''final.mp3'']
    \<and> (\<exists>audio_bytes. synthesis svc r = Inr audio_bytes
         \<and> files (snd (process_inputs svc (Some audio) image_filepath w)) =
             (files w)(''final.mp3'' \<mapsto> audio_bytes))"
  using assms by (auto simp: model_defs split: sum.splits if_splits)

text \<open>The two runs used as concrete inputs below, evaluated.\<close>

lemma demo_run:
  "fst (process_inputs demo_services (Some ''question.wav'') (Some ''skin.jpg'') demo_world) =
     Inr (''What is this rash on my arm'', ''With what I see, I think you have a mild rash'',
          Some ''final.mp3'')"
  by (simp add: model_defs demo_defs)

lemma demo_rerun:
  "fst (process_inputs other_services (Some ''question.wav'') (Some ''skin.jpg'')
         (snd (process_inputs demo_services (Some ''question.wav'') (Some ''skin.jpg'')
                demo_world))) =
     Inr (''What is this rash on my arm'', ''With what I see, I think you have a mild rash'',
          Some ''final.mp3'')"
  by (simp add: model_defs demo_defs)

lemma demo_run_empty_image:
  "fst (process_inputs demo_services (Some ''question.wav'') (Some []) demo_world) =
     Inr (''What is this rash on my arm'', ''No image provided for me to analyze'',
          Some ''final.mp3'')"
  by (simp add: model_defs demo_defs)


subsection \<open>The vision query\<close>

text \<open>
  Claim C1. For a request with an audio path and a (non-empty) image path, the calls to
  the vision-analysis collaborator are determined as follows: when transcription
  returned a transcript and the image was encoded, there is exactly one call, and its
  arguments are the fixed prompt followed by the transcript, the encoded image returned
  by \<open>encode_image\<close> for the image path, and the fixed vision model identifier; when
  transcription or encoding raised, there is no call at all.
\<close>

theorem vision_query_is_prompt_then_transcript:
  assumes "image_path \<noteq> []"
  shows "filter is_AnalyzeImage
           (new_calls w (snd (process_inputs svc (Some audio) (Some image_path) w))) =
         (case transcription svc (environ w ''GROQ_API_KEY'') audio ''whisper-large-v3'' of
            Inl e \<Rightarrow> []
          | Inr transcript \<Rightarrow>
              (case encoding svc image_path of
                 Inl e \<Rightarrow> []
               | Inr encoded \<Rightarrow>
                   [AnalyzeImage (system_prompt @ transcript) encoded
                      ''meta-llama/llama-4-scout-17b-16e-instruct'']))"
  using assms by (simp add: model_defs split: sum.splits)

theorem vision_query_is_prompt_then_transcript_witness:
  "''skin.jpg'' \<noteq> [] \<and>
   filter is_AnalyzeImage
     (new_calls demo_world
        (snd (process_inputs demo_services (Some ''question.wav'') (Some ''skin.jpg'') demo_world))) =
   [AnalyzeImage (system_prompt @ ''What is this rash on my arm'') ''aW1hZ2U=''
      ''meta-llama/llama-4-scout-17b-16e-instruct'']"
  using vision_query_is_prompt_then_transcript
    [where image_path = "''skin.jpg''" and w = demo_world and svc = demo_services
      and audio = "''question.wav''"]
  by (simp add: demo_defs)

subsection \<open>No audio\<close>

text \<open>
  Claim C2. When the audio path is \<open>None\<close>, the callback returns the two fixed
  placeholder strings and no audio, and calls no collaborator: the call log, the files
  and the environment are as before.
\<close>

theorem no_audio_short_circuit:
  "fst (process_inputs svc None image_filepath w) =
     Inr (''No audio recorded'', ''Please record your question first'', None)
   \<and> new_calls w (snd (process_inputs svc None image_filepath w)) = []
   \<and> calls (snd (process_inputs svc None image_filepath w)) = calls w
   \<and> files (snd (process_inputs svc None image_filepath w)) = files w
   \<and> environ (snd (process_inputs svc None image_filepath w)) = environ w"
  by (simp add: model_defs)


theorem no_audio_short_circuit_witness:
  "fst (process_inputs demo_services None (Some ''skin.jpg'') demo_world) =
     Inr (''No audio recorded'', ''Please record your question first'', None)
   \<and> calls (snd (process_inputs demo_services None (Some ''skin.jpg'') demo_world)) =
       calls demo_world"
  using no_audio_short_circuit [of demo_services "Some ''skin.jpg''" demo_world]
  by blast

subsection \<open>No image\<close>

text \<open>
  Claim C3, with the sentinel as the code has it. For a request with an audio path and
  no image path, the vision-analysis collaborator is never invoked, a returned response
  text is the fixed string \<open>No image provided for me to analyze\<close>, and the request does
  return it whenever transcription and synthesis succeed.
\<close>

theorem no_image_response_is_sentinel:
  "filter is_AnalyzeImage (new_calls w (snd (process_inputs svc (Some audio) None w))) = []
   \<and> (fst (process_inputs svc (Some audio) None w) = Inr (transcript, response, audio_path)
        \<longrightarrow> response = ''No image provided for me to analyze'')
   \<and> (transcription svc (environ w ''GROQ_API_KEY'') audio ''whisper-large-v3'' = Inr t
        \<and> synthesis svc ''No image provided for me to analyze'' = Inr audio_bytes
        \<longrightarrow> fst (process_inputs svc (Some audio) None w) =
              Inr (t, ''No image provided for me to analyze'', Some ''final.mp3''))"
  by (auto simp: model_defs split: sum.splits)

theorem no_image_response_is_sentinel_witness:
  "fst (process_inputs demo_services (Some ''question.wav'') None demo_world) =
     Inr (''What is this rash on my arm'', ''No image provided for me to analyze'',
          Some ''final.mp3'')
   \<and> filter is_AnalyzeImage
        (new_calls demo_world
           (snd (process_inputs demo_services (Some ''question.wav'') None demo_world))) = []"
  using no_image_response_is_sentinel
    [where w = demo_world and svc = demo_services and audio = "''question.wav''"
      and t = "''What is this rash on my arm''" and audio_bytes = "''ID3''"
      and transcript = "''What is this rash on my arm''"
      and response = "''No image provided for me to analyze''"
      and audio_path = "Some ''final.mp3''"]
  by (simp add: demo_defs)

text \<open>
  The response text of that request is not the string \<open>no image provided\<close>: the code's
  literal is longer and capitalised.
\<close>

theorem no_image_response_text_counterexample:
  "response_text (fst (process_inputs demo_services (Some ''question.wav'') None demo_world))
     \<noteq> Some ''no image provided''"
  by (simp add: model_defs demo_defs)

subsection \<open>A fault in transcription\<close>

text \<open>
  Claim C4. If the transcription collaborator raises a fault, the request ends with that
  very fault, transcription is the only collaborator that was called, so speech synthesis
  is never called, and no file is written.
\<close>

theorem transcription_fault_propagates:
  assumes "transcription svc (environ w ''GROQ_API_KEY'') audio ''whisper-large-v3'' = Inl e"
  shows "fst (process_inputs svc (Some audio) image_filepath w) = Inl e
    \<and> new_calls w (snd (process_inputs svc (Some audio) image_filepath w)) =
        [Transcribe (environ w ''GROQ_API_KEY'') audio ''whisper-large-v3'']
    \<and> filter is_TextToSpeech
        (new_calls w (snd (process_inputs svc (Some audio) image_filepath w))) = []
    \<and> files (snd (process_inputs svc (Some audio) image_filepath w)) = files w"
  using assms by (simp add: model_defs)

theorem transcription_fault_propagates_witness:
  "transcription demo_services (environ keyless_world ''GROQ_API_KEY'') ''question.wav''
     ''whisper-large-v3'' = Inl (Fault ''missing api key'')
   \<and> fst (process_inputs demo_services (Some ''question.wav'') (Some ''skin.jpg'') keyless_world)
       = Inl (Fault ''missing api key'')
   \<and> filter is_TextToSpeech
        (new_calls keyless_world
          (snd (process_inputs demo_services (Some ''question.wav'') (Some ''skin.jpg'')
                 keyless_world))) = []"
proof -
  have h: "transcription demo_services (environ keyless_world ''GROQ_API_KEY'') ''question.wav''
     ''whisper-large-v3'' = Inl (Fault ''missing api key'')"
    by (simp add: demo_defs)
  from transcription_fault_propagates [OF h, of "Some ''skin.jpg''"] h
  show ?thesis by blast
qed

subsection \<open>Speech synthesis and the output file\<close>

text \<open>
  Claim C5. When transcription returned a transcript and the response text was obtained
  (the sentinel for a false image path, the answer of vision analysis otherwise), speech
  synthesis is called exactly once, with that response text and the path \<open>final.mp3\<close>.
  If it succeeds, the request returns, the file at \<open>final.mp3\<close> holds the new audio
  whatever was there before, every other file is as before, and so is the environment.
\<close>

theorem synthesis_called_once_to_fixed_path:
  assumes "transcription svc (environ w ''GROQ_API_KEY'') audio ''whisper-large-v3'' = Inr transcript"
    and "(\<not> py_bool image_filepath \<and> response = ''No image provided for me to analyze'')
       \<or> (\<exists>image_path encoded.
            image_filepath = Some image_path \<and> image_path \<noteq> []
          \<and> encoding svc image_path = Inr encoded
          \<and> analysis svc (system_prompt @ transcript) encoded
               ''meta-llama/llama-4-scout-17b-16e-instruct'' = Inr response)"
  shows "filter is_TextToSpeech
           (new_calls w (snd (process_inputs svc (Some audio) image_filepath w))) =
         [TextToSpeech response ''final.mp3'']
    \<and> (synthesis svc response = Inr audio_bytes \<longrightarrow>
         fst (process_inputs svc (Some audio) image_filepath w) =
           Inr (transcript, response, Some ''final.mp3'')
       \<and> files (snd (process_inputs svc (Some audio) image_filepath w)) ''final.mp3'' =
           Some audio_bytes
       \<and> (\<forall>path. path \<noteq> ''final.mp3'' \<longrightarrow>
            files (snd (process_inputs svc (Some audio) image_filepath w)) path = files w path)
       \<and> environ (snd (process_inputs svc (Some audio) image_filepath w)) = environ w)"
  using assms by (auto simp: model_defs split: sum.splits)

theorem synthesis_called_once_to_fixed_path_witness:
  "filter is_TextToSpeech
     (new_calls demo_world
        (snd (process_inputs demo_services (Some ''question.wav'') (Some ''skin.jpg'') demo_world))) =
     [TextToSpeech ''With what I see, I think you have a mild rash'' ''final.mp3'']
   \<and> files demo_world ''final.mp3'' = Some ''stale''
   \<and> files (snd (process_inputs demo_services (Some ''question.wav'') (Some ''skin.jpg'') demo_world))
        ''final.mp3'' = Some ''ID3''
   \<and> files (snd (process_inputs demo_services (Some ''question.wav'') (Some ''skin.jpg'') demo_world))
        ''skin.jpg'' = Some ''image''"
proof -
  have h1: "transcription demo_services (environ demo_world ''GROQ_API_KEY'') ''question.wav''
      ''whisper-large-v3'' = Inr ''What is this rash on my arm''"
    by (simp add: demo_defs)
  have h2: "(\<not> py_bool (Some ''skin.jpg'')
        \<and> ''With what I see, I think you have a mild rash'' = ''No image provided for me to analyze'')
       \<or> (\<exists>image_path encoded.
            Some ''skin.jpg'' = Some image_path \<and> image_path \<noteq> []
          \<and> encoding demo_services image_path = Inr encoded
          \<and> analysis demo_services (system_prompt @ ''What is this rash on my arm'') encoded
               ''meta-llama/llama-4-scout-17b-16e-instruct'' =
              Inr ''With what I see, I think you have a mild rash'')"
    by (simp add: demo_defs)
  have h3: "synthesis demo_services ''With what I see, I think you have a mild rash'' = Inr ''ID3''"
    by (simp add: demo_defs)
  have h4: "files demo_world ''final.mp3'' = Some ''stale''"
    and h5: "files demo_world ''skin.jpg'' = Some ''image''"
    and h6: "''skin.jpg'' \<noteq> ''final.mp3''"
    by (simp_all add: demo_defs)
  from synthesis_called_once_to_fixed_path [OF h1 h2, of "''ID3''"] h3 h4 h5 h6
  show ?thesis by simp
qed

text \<open>
  Claim C6. When the same request is run twice in succession and both runs return, both
  return the path \<open>final.mp3\<close>, each run calls speech synthesis once on that path, the
  first run leaves the names of the earlier files plus \<open>final.mp3\<close>, the second run adds
  no name, and the file then holds the audio of the second run. The answers of the
  services may differ between the two runs.
\<close>

theorem repeated_request_same_output_path:
  assumes "fst (process_inputs svc (Some audio) image_filepath w) = Inr (t1, r1, p1)"
    and "fst (process_inputs svc' (Some audio) image_filepath
               (snd (process_inputs svc (Some audio) image_filepath w))) = Inr (t2, r2, p2)"
  shows "let w1 = snd (process_inputs svc (Some audio) image_filepath w);
             w2 = snd (process_inputs svc' (Some audio) image_filepath w1)
         in p1 = Some ''final.mp3'' \<and> p2 = Some ''final.mp3''
          \<and> filter is_TextToSpeech (new_calls w w1) = [TextToSpeech r1 ''final.mp3'']
          \<and> filter is_TextToSpeech (new_calls w1 w2) = [TextToSpeech r2 ''final.mp3'']
          \<and> dom (files w1) = insert ''final.mp3'' (dom (files w))
          \<and> dom (files w2) = dom (files w1)
          \<and> (\<exists>audio_bytes. synthesis svc' r2 = Inr audio_bytes
                \<and> files w2 ''final.mp3'' = Some audio_bytes)"
  using run_success [OF assms(1)] run_success [OF assms(2)]
  by (auto simp: Let_def)

theorem repeated_request_same_output_path_witness:
  "fst (process_inputs demo_services (Some ''question.wav'') (Some ''skin.jpg'') demo_world) =
     Inr (''What is this rash on my arm'', ''With what I see, I think you have a mild rash'',
          Some ''final.mp3'')
   \<and> dom (files (snd (process_inputs other_services (Some ''question.wav'') (Some ''skin.jpg'')
         (snd (process_inputs demo_services (Some ''question.wav'') (Some ''skin.jpg'')
                demo_world))))) =
     dom (files (snd (process_inputs demo_services (Some ''question.wav'') (Some ''skin.jpg'')
                demo_world)))
   \<and> files (snd (process_inputs other_services (Some ''question.wav'') (Some ''skin.jpg'')
         (snd (process_inputs demo_services (Some ''question.wav'') (Some ''skin.jpg'')
                demo_world)))) ''final.mp3'' = Some ''ID4''"
proof -
  have h: "synthesis other_services ''With what I see, I think you have a mild rash'' = Inr ''ID4''"
    by (simp add: demo_defs)
  from repeated_request_same_output_path [OF demo_run demo_rerun] h demo_run
  show ?thesis by (auto simp: Let_def)
qed

subsection \<open>The returned triple\<close>

text \<open>
  Claim C7. A request with an audio path returns the triple (transcript, response,
  audio path) exactly when transcription returned that transcript, the response is the
  response text of the image step (the sentinel for a false image path, the answer of
  vision analysis on prompt and transcript otherwise), synthesis of the response
  succeeded, and the audio path is \<open>final.mp3\<close>; the file at that path then holds the
  audio just synthesized.
\<close>

theorem successful_run_returns_triple:
  "((fst (process_inputs svc (Some audio) image_filepath w) = Inr (transcript, response, audio_path))
    = (transcription svc (environ w ''GROQ_API_KEY'') audio ''whisper-large-v3'' = Inr transcript
      \<and> ((\<not> py_bool image_filepath \<and> response = ''No image provided for me to analyze'')
         \<or> (\<exists>image_path encoded.
              image_filepath = Some image_path \<and> image_path \<noteq> []
            \<and> encoding svc image_path = Inr encoded
            \<and> analysis svc (system_prompt @ transcript) encoded
                 ''meta-llama/llama-4-scout-17b-16e-instruct'' = Inr response))
      \<and> (\<exists>audio_bytes. synthesis svc response = Inr audio_bytes)
      \<and> audio_path = Some ''final.mp3''))
   \<and> (fst (process_inputs svc (Some audio) image_filepath w) = Inr (transcript, response, audio_path)
        \<longrightarrow> (\<exists>audio_bytes. synthesis svc response = Inr audio_bytes
              \<and> files (snd (process_inputs svc (Some audio) image_filepath w)) ''final.mp3'' =
                  Some audio_bytes))"
proof
  show "(fst (process_inputs svc (Some audio) image_filepath w) = Inr (transcript, response, audio_path))
    = (transcription svc (environ w ''GROQ_API_KEY'') audio ''whisper-large-v3'' = Inr transcript
      \<and> ((\<not> py_bool image_filepath \<and> response = ''No image provided for me to analyze'')
         \<or> (\<exists>image_path encoded.
              image_filepath = Some image_path \<and> image_path \<noteq> []
            \<and> encoding svc image_path = Inr encoded
            \<and> analysis svc (system_prompt @ transcript) encoded
                 ''meta-llama/llama-4-scout-17b-16e-instruct'' = Inr response))
      \<and> (\<exists>audio_bytes. synthesis svc response = Inr audio_bytes)
      \<and> audio_path = Some ''final.mp3'')"
    by (cases image_filepath) (auto simp: model_defs split: sum.splits)
next
  show "fst (process_inputs svc (Some audio) image_filepath w) = Inr (transcript, response, audio_path)
        \<longrightarrow> (\<exists>audio_bytes. synthesis svc response = Inr audio_bytes
              \<and> files (snd (process_inputs svc (Some audio) image_filepath w)) ''final.mp3'' =
                  Some audio_bytes)"
  proof
    assume "fst (process_inputs svc (Some audio) image_filepath w) = Inr (transcript, response, audio_path)"
    from run_success [OF this] show "\<exists>audio_bytes. synthesis svc response = Inr audio_bytes
              \<and> files (snd (process_inputs svc (Some audio) image_filepath w)) ''final.mp3'' =
                  Some audio_bytes"
      by auto
  qed
qed

theorem successful_run_returns_triple_witness:
  "transcription demo_services (environ demo_world ''GROQ_API_KEY'') ''question.wav''
      ''whisper-large-v3'' = Inr ''What is this rash on my arm''
   \<and> fst (process_inputs demo_services (Some ''question.wav'') (Some ''skin.jpg'') demo_world) =
     Inr (''What is this rash on my arm'', ''With what I see, I think you have a mild rash'',
          Some ''final.mp3'')
   \<and> files (snd (process_inputs demo_services (Some ''question.wav'') (Some ''skin.jpg'') demo_world))
        ''final.mp3'' = Some ''ID3''"
proof -
  have h: "synthesis demo_services ''With what I see, I think you have a mild rash'' = Inr ''ID3''"
    by (simp add: demo_defs)
  from successful_run_returns_triple
    [of demo_services "''question.wav''" "Some ''skin.jpg''" demo_world
        "''What is this rash on my arm''" "''With what I see, I think you have a mild rash''"
        "Some ''final.mp3''"]
    demo_run h
  show ?thesis by auto
qed

subsection \<open>The transcription call\<close>

text \<open>
  Claim C8. For every request with an audio path, the first collaborator call is the
  transcription call, it is the only transcription call, and its arguments are the value
  of \<open>GROQ_API_KEY\<close> in the environment, the given audio path and the model identifier
  \<open>whisper-large-v3\<close>.
\<close>

theorem transcription_called_once_and_first:
  "take 1 (new_calls w (snd (process_inputs svc (Some audio) image_filepath w))) =
       [Transcribe (environ w ''GROQ_API_KEY'') audio ''whisper-large-v3'']
   \<and> filter is_Transcribe (new_calls w (snd (process_inputs svc (Some audio) image_filepath w))) =
       [Transcribe (environ w ''GROQ_API_KEY'') audio ''whisper-large-v3'']"
  by (simp add: model_defs split: sum.splits)

theorem transcription_called_once_and_first_witness:
  "filter is_Transcribe
     (new_calls demo_world
        (snd (process_inputs demo_services (Some ''question.wav'') (Some ''skin.jpg'') demo_world))) =
   [Transcribe (Some ''gsk-demo'') ''question.wav'' ''whisper-large-v3'']"
proof -
  have h: "environ demo_world ''GROQ_API_KEY'' = Some ''gsk-demo''"
    by (simp add: demo_defs)
  from transcription_called_once_and_first
    [of demo_world demo_services "''question.wav''" "Some ''skin.jpg''"] h
  show ?thesis by simp
qed

text \<open>
  Claim C9. When \<open>GROQ_API_KEY\<close> is unset, the callback still calls transcription first,
  with \<open>None\<close> as the credential. A fault raised by that call ends the request with that
  fault; when the call returns a transcript the callback goes on to the next
  collaborator; and whenever the request ends with a fault, that fault is the answer of
  the collaborator called last, never one the callback raised itself.
\<close>

theorem unset_credential_passed_to_transcription:
  assumes "environ w ''GROQ_API_KEY'' = None"
  shows "take 1 (new_calls w (snd (process_inputs svc (Some audio) image_filepath w))) =
           [Transcribe None audio ''whisper-large-v3'']
    \<and> (transcription svc None audio ''whisper-large-v3'' = Inl e \<longrightarrow>
         fst (process_inputs svc (Some audio) image_filepath w) = Inl e)
    \<and> (transcription svc None audio ''whisper-large-v3'' = Inr t \<longrightarrow>
         2 \<le> length (new_calls w (snd (process_inputs svc (Some audio) image_filepath w))))
    \<and> (fst (process_inputs svc (Some audio) image_filepath w) = Inl e' \<longrightarrow>
         answer svc (last (new_calls w (snd (process_inputs svc (Some audio) image_filepath w))))
           = Inl e')"
  using assms by (auto simp: model_defs split: sum.splits)

theorem unset_credential_passed_to_transcription_witness:
  "environ keyless_world ''GROQ_API_KEY'' = None
   \<and> take 1 (new_calls keyless_world
        (snd (process_inputs demo_services (Some ''question.wav'') None keyless_world))) =
       [Transcribe None ''question.wav'' ''whisper-large-v3'']
   \<and> fst (process_inputs demo_services (Some ''question.wav'') None keyless_world) =
       Inl (Fault ''missing api key'')"
proof -
  have h: "environ keyless_world ''GROQ_API_KEY'' = None"
    by (simp add: demo_defs)
  have h2: "transcription demo_services None ''question.wav'' ''whisper-large-v3'' =
      Inl (Fault ''missing api key'')"
    by (simp add: demo_defs)
  from unset_credential_passed_to_transcription
    [OF h, of demo_services "''question.wav''" None "Fault ''missing api key''"
        "''What is this rash on my arm''" "Fault ''missing api key''"] h h2
  show ?thesis by blast
qed

subsection \<open>Truth of the image path, identity of the audio path\<close>

text \<open>
  Claim C10. The image branch tests the truth value of the path: a request with the
  empty string as image path runs exactly as the same request with no image path, so
  vision analysis is not invoked and a returned response is the sentinel. The audio
  branch tests for \<open>None\<close> only: the request makes no collaborator call exactly when the
  audio path is \<open>None\<close>, and the empty string as audio path is passed to transcription.
\<close>

theorem image_truthiness_audio_none_check:
  "process_inputs svc audio_filepath (Some []) w = process_inputs svc audio_filepath None w
   \<and> filter is_AnalyzeImage
        (new_calls w (snd (process_inputs svc (Some audio) (Some []) w))) = []
   \<and> (fst (process_inputs svc (Some audio) (Some []) w) = Inr (t, r, p) \<longrightarrow>
        r = ''No image provided for me to analyze'')
   \<and> ((new_calls w (snd (process_inputs svc audio_filepath image_filepath w)) = [])
        = (audio_filepath = None))
   \<and> take 1 (new_calls w (snd (process_inputs svc (Some []) image_filepath w))) =
        [Transcribe (environ w ''GROQ_API_KEY'') [] ''whisper-large-v3'']"
  by (auto simp: model_defs split: sum.splits option.splits)

theorem image_truthiness_audio_none_check_witness:
  "fst (process_inputs demo_services (Some ''question.wav'') (Some []) demo_world) =
     Inr (''What is this rash on my arm'', ''No image provided for me to analyze'',
          Some ''final.mp3'')
   \<and> process_inputs demo_services (Some ''question.wav'') (Some []) demo_world =
       process_inputs demo_services (Some ''question.wav'') None demo_world
   \<and> filter is_AnalyzeImage
        (new_calls demo_world
           (snd (process_inputs demo_services (Some ''question.wav'') (Some []) demo_world))) = []"
  using image_truthiness_audio_none_check
    [of demo_services "Some ''question.wav''" demo_world "''question.wav''"
        "''What is this rash on my arm''" "''No image provided for me to analyze''"
        "Some ''final.mp3''" None]
    demo_run_empty_image
  by blast

end
